theory Spec2Isabelle
  imports Main
begin

section \<open>Python values\<close>

text \<open>
  The module \<^verbatim>\<open>mod_reticle_light_toggle.py\<close> is Python 2 code and never checks the type of
  what it reads from the settings file or receives from the game client.  The values it handles
  are therefore modelled as they are at run time: \<^verbatim>\<open>None\<close>, booleans, integers, strings,
  lists and dictionaries with string keys (the items of a dictionary are kept as an association
  list, looked up with \<open>map_of\<close>).  Floating point numbers are not part of the model.
\<close>

datatype pyval =
    PNone
  | PBool bool
  | PInt int
  | PStr string
  | PList "pyval list"
  | PDict "(string \<times> pyval) list"

datatype error = TypeError | KeyError | AttributeError

text \<open>The result of a call into the game client: it raises or it returns.\<close>

datatype 'a outcome = Raise | Return 'a

text \<open>Python's \<^verbatim>\<open>bool(x)\<close>, which is also what \<^verbatim>\<open>if x\<close> and \<^verbatim>\<open>not x\<close> test.\<close>

fun truthy :: "pyval \<Rightarrow> bool" where
  "truthy PNone = False"
| "truthy (PBool b) = b"
| "truthy (PInt i) = (i \<noteq> 0)"
| "truthy (PStr s) = (s \<noteq> [])"
| "truthy (PList xs) = (xs \<noteq> [])"
| "truthy (PDict kvs) = (kvs \<noteq> [])"

text \<open>\<^verbatim>\<open>k in s\<close> on two strings: \<open>k\<close> occurs in \<open>s\<close> as a contiguous piece.\<close>

fun is_substring :: "string \<Rightarrow> string \<Rightarrow> bool" where
  "is_substring k [] = (k = [])"
| "is_substring k (c # s) = (take (length k) (c # s) = k \<or> is_substring k s)"

text \<open>
  \<^verbatim>\<open>key in data\<close> for a string \<open>key\<close>: membership among the keys of a dictionary, among the
  elements of a list, as a substring of a string; \<^verbatim>\<open>TypeError\<close> on anything else.
\<close>

fun py_contains :: "pyval \<Rightarrow> string \<Rightarrow> error + bool" where
  "py_contains (PDict kvs) key = Inr (map_of kvs key \<noteq> None)"
| "py_contains (PList xs) key = Inr (List.member xs (PStr key))"
| "py_contains (PStr s) key = Inr (is_substring key s)"
| "py_contains PNone key = Inl TypeError"
| "py_contains (PBool b) key = Inl TypeError"
| "py_contains (PInt i) key = Inl TypeError"

text \<open>
  \<^verbatim>\<open>data[key]\<close> for a string \<open>key\<close>: the value of a dictionary, \<^verbatim>\<open>KeyError\<close> when the
  key is missing; \<^verbatim>\<open>TypeError\<close> on a list or a string (their indices are integers) and on
  everything that cannot be indexed.
\<close>

fun py_getitem :: "pyval \<Rightarrow> string \<Rightarrow> error + pyval" where
  "py_getitem (PDict kvs) key = (case map_of kvs key of None \<Rightarrow> Inl KeyError | Some v \<Rightarrow> Inr v)"
| "py_getitem (PList xs) key = Inl TypeError"
| "py_getitem (PStr s) key = Inl TypeError"
| "py_getitem PNone key = Inl TypeError"
| "py_getitem (PBool b) key = Inl TypeError"
| "py_getitem (PInt i) key = Inl TypeError"

section \<open>What the module does to the outside\<close>

text \<open>
  Every function of the model returns, besides its result, the list of the effects it had on
  its collaborators, in the order of the source: the two logging functions of
  \<^verbatim>\<open>debug_utils\<close>, the calls on the crosshair controller, the calls on the settings core,
  and the call of an original \<^verbatim>\<open>handleMouseEvent\<close> (with the number that identifies the
  method and the instance it is called on).
\<close>

datatype effect =
    LOG_NOTE string
  | LOG_CURRENT_EXCEPTION string
  | SetOverrideReticleColor pyval
  | SetReticleColor pyval
  | GetSetting
  | GetSystemValue
  | SetSystemValue pyval
  | ApplySetting
  | CallOriginal nat nat

definition MOD_ID :: string where
  "MOD_ID = ''reticleLightToggle''"

section \<open>The configuration store\<close>

text \<open>
  \<^verbatim>\<open>_ModConfig\<close> has four slots.  A slot holds whatever was last assigned to it: the default,
  a value of the settings file, or a value of the settings window.
\<close>

record ModConfig =
  enabled :: pyval
  baseColor :: pyval
  alternateColor :: pyval
  startWithAlternateColor :: pyval

definition DEFAULT_CONFIG :: "(string \<times> pyval) list" where
  "DEFAULT_CONFIG =
     [(''enabled'', PBool True),
      (''baseColor'', PStr ''#FFCC00''),
      (''alternateColor'', PStr ''#00FFDE''),
      (''startWithAlternateColor'', PBool False)]"

text \<open>\<^verbatim>\<open>setattr\<close> and \<^verbatim>\<open>getattr\<close> on an object with these \<^verbatim>\<open>__slots__\<close>.\<close>

definition setattr_config :: "ModConfig \<Rightarrow> string \<Rightarrow> pyval \<Rightarrow> error + ModConfig" where
  "setattr_config self key v =
     (if key = ''enabled'' then Inr (self\<lparr>enabled := v\<rparr>)
      else if key = ''baseColor'' then Inr (self\<lparr>baseColor := v\<rparr>)
      else if key = ''alternateColor'' then Inr (self\<lparr>alternateColor := v\<rparr>)
      else if key = ''startWithAlternateColor'' then Inr (self\<lparr>startWithAlternateColor := v\<rparr>)
      else Inl AttributeError)"

definition getattr_config :: "ModConfig \<Rightarrow> string \<Rightarrow> error + pyval" where
  "getattr_config self key =
     (if key = ''enabled'' then Inr (enabled self)
      else if key = ''baseColor'' then Inr (baseColor self)
      else if key = ''alternateColor'' then Inr (alternateColor self)
      else if key = ''startWithAlternateColor'' then Inr (startWithAlternateColor self)
      else Inl AttributeError)"

text \<open>
  The settings file, as \<^verbatim>\<open>load\<close> can find it: absent; there but \<^verbatim>\<open>open\<close> raises; there
  but \<^verbatim>\<open>json.load\<close> raises; or holding a JSON document, given by the value \<^verbatim>\<open>json.load\<close>
  returns for it.  \<^verbatim>\<open>json.dump\<close> is taken to write a document that \<^verbatim>\<open>json.load\<close> reads
  back as the value dumped; the text of the file is not modelled.
\<close>

datatype file_state = NoFile | Unreadable | Malformed | Doc pyval

record filesystem =
  dirExists :: bool
  configFile :: file_state

text \<open>
  What the operating system answers when the module creates the directory and writes the
  file: \<^verbatim>\<open>os.makedirs\<close> succeeds or raises; the write succeeds, \<^verbatim>\<open>open\<close> raises (the file
  is as before), or \<^verbatim>\<open>json.dump\<close> raises after \<^verbatim>\<open>open\<close> has truncated the file.
\<close>

datatype write_outcome = Written | OpenFails | DumpFails

record io_outcome =
  makedirsOk :: bool
  writeOutcome :: write_outcome

definition isfile :: "filesystem \<Rightarrow> bool" where
  "isfile fs = (dirExists fs \<and> configFile fs \<noteq> NoFile)"

definition ensureConfigDirectory :: "io_outcome \<Rightarrow> filesystem \<Rightarrow> effect list \<times> filesystem" where
  "ensureConfigDirectory io fs =
     (if \<not> dirExists fs then
        (if makedirsOk io then ([], fs\<lparr>dirExists := True\<rparr>)
         else ([LOG_CURRENT_EXCEPTION (MOD_ID @ '': failed to create config directory'')], fs))
      else ([], fs))"

text \<open>
  The loop at the end of \<^verbatim>\<open>load\<close>:
  \<^verbatim>\<open>for key in DEFAULT_CONFIG: if key in data: setattr(self, key, data[key])\<close>.
  It stands outside the \<^verbatim>\<open>try\<close>, so what \<^verbatim>\<open>in\<close> and the subscript raise leaves \<^verbatim>\<open>load\<close>.
\<close>

fun overlay :: "string list \<Rightarrow> pyval \<Rightarrow> ModConfig \<Rightarrow> error + ModConfig" where
  "overlay [] data self = Inr self"
| "overlay (key # keys) data self =
     (case py_contains data key of
        Inl e \<Rightarrow> Inl e
      | Inr False \<Rightarrow> overlay keys data self
      | Inr True \<Rightarrow>
          (case py_getitem data key of
             Inl e \<Rightarrow> Inl e
           | Inr v \<Rightarrow>
               (case setattr_config self key v of
                  Inl e \<Rightarrow> Inl e
                | Inr self' \<Rightarrow> overlay keys data self')))"

definition load :: "io_outcome \<Rightarrow> filesystem \<Rightarrow> ModConfig \<Rightarrow> effect list \<times> filesystem \<times> (error + ModConfig)" where
  "load io fs self =
     (let (made, fs1) = ensureConfigDirectory io fs in
      if \<not> isfile fs1 then (made, fs1, Inr self)
      else
        (case configFile fs1 of
           Doc data \<Rightarrow> (made, fs1, overlay (map fst DEFAULT_CONFIG) data self)
         | _ \<Rightarrow>
             (made @ [LOG_CURRENT_EXCEPTION (MOD_ID @ '': unable to read config, using defaults'')],
              fs1, Inr self)))"

text \<open>\<^verbatim>\<open>{key: getattr(self, key) for key in DEFAULT_CONFIG}\<close>, in \<^verbatim>\<open>save\<close> and \<^verbatim>\<open>asDict\<close>.\<close>

fun collect :: "string list \<Rightarrow> ModConfig \<Rightarrow> error + (string \<times> pyval) list" where
  "collect [] self = Inr []"
| "collect (key # keys) self =
     (case getattr_config self key of
        Inl e \<Rightarrow> Inl e
      | Inr v \<Rightarrow> (case collect keys self of Inl e \<Rightarrow> Inl e | Inr kvs \<Rightarrow> Inr ((key, v) # kvs)))"

definition asDict :: "ModConfig \<Rightarrow> error + (string \<times> pyval) list" where
  "asDict self = collect (map fst DEFAULT_CONFIG) self"

definition save :: "io_outcome \<Rightarrow> filesystem \<Rightarrow> ModConfig \<Rightarrow> effect list \<times> filesystem \<times> (error + unit)" where
  "save io fs self =
     (let (made, fs1) = ensureConfigDirectory io fs in
      case collect (map fst DEFAULT_CONFIG) self of
        Inl e \<Rightarrow> (made, fs1, Inl e)
      | Inr data \<Rightarrow>
          (if \<not> dirExists fs1 \<or> writeOutcome io = OpenFails then
             (made @ [LOG_CURRENT_EXCEPTION (MOD_ID @ '': unable to save config'')], fs1, Inr ())
           else if writeOutcome io = DumpFails then
             (made @ [LOG_CURRENT_EXCEPTION (MOD_ID @ '': unable to save config'')],
              fs1\<lparr>configFile := Malformed\<rparr>, Inr ())
           else (made, fs1\<lparr>configFile := Doc (PDict data)\<rparr>, Inr ())))"

text \<open>
  \<^verbatim>\<open>_ModConfig.__init__\<close>: the defaults are assigned, then \<^verbatim>\<open>load\<close> runs.  This is the
  fresh store of a start of the client.
\<close>

definition defaults :: ModConfig where
  "defaults = \<lparr>enabled = PBool True, baseColor = PStr ''#FFCC00'',
     alternateColor = PStr ''#00FFDE'', startWithAlternateColor = PBool False\<rparr>"

definition newModConfig :: "io_outcome \<Rightarrow> filesystem \<Rightarrow> effect list \<times> filesystem \<times> (error + ModConfig)" where
  "newModConfig io fs = load io fs defaults"

section \<open>The game client, as the controller sees it\<close>

text \<open>
  The crosshair controller of the battle session.  A method is absent (\<open>None\<close>, so that
  \<^verbatim>\<open>hasattr\<close> is false) or present with the outcome of calling it in this attempt.
\<close>

record crosshair =
  setOverrideReticleColor :: "unit outcome option"
  setReticleColor :: "unit outcome option"

text \<open>
  The settings core: reading \<^verbatim>\<open>options\<close> raises or gives an object or \<^verbatim>\<open>None\<close>;
  \<^verbatim>\<open>options.getSetting(CROSSHAIR_PANEL.GUN_MARKER_COLOR)\<close> raises or gives the setting or
  \<^verbatim>\<open>None\<close> (the constant is one the client defines and is taken to exist); the setting has the
  three methods the fallback calls.
\<close>

record colorSetting =
  getSystemValue :: "pyval outcome"
  setSystemValue :: "unit outcome"
  applySetting :: "unit outcome"

record settingsOptions =
  getSetting :: "colorSetting option outcome"

record settingsCoreObj =
  options :: "settingsOptions option outcome"

text \<open>
  The two injected dependencies.  \<open>sessionProvider\<close> is \<open>None\<close> when the descriptor yields
  \<^verbatim>\<open>None\<close>, and otherwise holds \<^verbatim>\<open>getattr(self.sessionProvider.shared, 'crosshair', None)\<close>;
  reading \<^verbatim>\<open>shared\<close> of a session provider is taken not to raise.  The client changes between
  two calls of the module, so every function takes the client of its call.
\<close>

record backend =
  sessionProvider :: "crosshair option option"
  settingsCore :: "settingsCoreObj option"

section \<open>The color controller\<close>

record ReticleColorController =
  config :: ModConfig
  useAlternate :: bool
  isInstalled :: bool
  pendingUpdate :: bool

definition newController :: "ModConfig \<Rightarrow> ReticleColorController" where
  "newController cfg =
     \<lparr>config = cfg, useAlternate = truthy (startWithAlternateColor cfg),
      isInstalled = False, pendingUpdate = False\<rparr>"

text \<open>
  \<^verbatim>\<open>for key in values: values[key] = hexColor\<close>, on the dictionary the setting returned.
\<close>

definition overwrite_all :: "pyval \<Rightarrow> pyval \<Rightarrow> pyval" where
  "overwrite_all vals hexColor =
     (case vals of PDict kvs \<Rightarrow> PDict (map (\<lambda>(k, old). (k, hexColor)) kvs) | _ \<Rightarrow> vals)"

definition settings_failed :: effect where
  "settings_failed = LOG_CURRENT_EXCEPTION (MOD_ID @ '': unable to write color through settings core'')"

definition applyThroughSettings :: "backend \<Rightarrow> pyval \<Rightarrow> effect list \<times> bool" where
  "applyThroughSettings env hexColor =
     (case settingsCore env of
        None \<Rightarrow> ([], False)
      | Some core \<Rightarrow>
          (case options core of
             Raise \<Rightarrow> ([settings_failed], False)
           | Return None \<Rightarrow> ([], False)
           | Return (Some opts) \<Rightarrow>
               (case getSetting opts of
                  Raise \<Rightarrow> ([GetSetting, settings_failed], False)
                | Return None \<Rightarrow> ([GetSetting], False)
                | Return (Some colorSetting) \<Rightarrow>
                    (case getSystemValue colorSetting of
                       Raise \<Rightarrow> ([GetSetting, GetSystemValue, settings_failed], False)
                     | Return vals \<Rightarrow>
                         (let vals' = overwrite_all vals hexColor in
                          case setSystemValue colorSetting of
                            Raise \<Rightarrow>
                              ([GetSetting, GetSystemValue, SetSystemValue vals', settings_failed],
                               False)
                          | Return u \<Rightarrow>
                              (case applySetting colorSetting of
                                 Raise \<Rightarrow>
                                   ([GetSetting, GetSystemValue, SetSystemValue vals',
                                     ApplySetting, settings_failed], False)
                               | Return u' \<Rightarrow>
                                   ([GetSetting, GetSystemValue, SetSystemValue vals',
                                     ApplySetting], True)))))))"

definition crosshair_failed :: effect where
  "crosshair_failed =
     LOG_CURRENT_EXCEPTION (MOD_ID @ '': failed to apply color through crosshair controller'')"

text \<open>The fallback, run after the effects the controller block already had.\<close>

definition after :: "effect list \<Rightarrow> effect list \<times> bool \<Rightarrow> effect list \<times> bool" where
  "after before r = (before @ fst r, snd r)"

definition applyGunMarkerColor :: "backend \<Rightarrow> pyval \<Rightarrow> effect list \<times> bool" where
  "applyGunMarkerColor env hexColor =
     (let controller = (case sessionProvider env of None \<Rightarrow> None | Some crosshair \<Rightarrow> crosshair) in
      case controller of
        None \<Rightarrow> applyThroughSettings env hexColor
      | Some c \<Rightarrow>
          (case setOverrideReticleColor c of
             Some (Return u) \<Rightarrow> ([SetOverrideReticleColor hexColor], True)
           | Some Raise \<Rightarrow>
               after [SetOverrideReticleColor hexColor, crosshair_failed]
                 (applyThroughSettings env hexColor)
           | None \<Rightarrow>
               (case setReticleColor c of
                  Some (Return u) \<Rightarrow> ([SetReticleColor hexColor], True)
                | Some Raise \<Rightarrow>
                    after [SetReticleColor hexColor, crosshair_failed]
                      (applyThroughSettings env hexColor)
                | None \<Rightarrow> applyThroughSettings env hexColor)))"

text \<open>The first line of \<^verbatim>\<open>applyCurrentColor\<close>: the color the attempt is made with.\<close>

definition currentColor :: "ReticleColorController \<Rightarrow> pyval" where
  "currentColor self =
     (if useAlternate self then alternateColor (config self) else baseColor (config self))"

definition deferred :: effect where
  "deferred = LOG_NOTE (MOD_ID @ '': gun marker controller not ready, defer color update'')"

definition applyCurrentColor :: "backend \<Rightarrow> ReticleColorController \<Rightarrow> effect list \<times> ReticleColorController" where
  "applyCurrentColor env self =
     (let color = currentColor self;
          (effects, ok) = applyGunMarkerColor env color
      in if \<not> ok then (effects @ [deferred], self\<lparr>pendingUpdate := True\<rparr>)
         else (effects, self\<lparr>pendingUpdate := False\<rparr>))"

definition toggled :: "bool \<Rightarrow> effect" where
  "toggled alternate =
     LOG_NOTE (MOD_ID @ '': toggled reticle color (alternate='' @
       (if alternate then ''True'' else ''False'') @ '')'')"

definition toggle :: "backend \<Rightarrow> ReticleColorController \<Rightarrow> effect list \<times> ReticleColorController" where
  "toggle env self =
     (if \<not> truthy (enabled (config self)) then ([], self)
      else
        (let self1 = self\<lparr>useAlternate := \<not> useAlternate self\<rparr>;
             (effects, self2) = applyCurrentColor env self1
         in (toggled (useAlternate self1) # effects, self2)))"

definition controller_install :: "backend \<Rightarrow> ReticleColorController \<Rightarrow> effect list \<times> ReticleColorController" where
  "controller_install env self =
     (if isInstalled self then ([], self)
      else
        (let self1 = self\<lparr>isInstalled := True\<rparr> in
         if truthy (enabled (config self1)) then applyCurrentColor env self1 else ([], self1)))"

definition controller_uninstall :: "ReticleColorController \<Rightarrow> ReticleColorController" where
  "controller_uninstall self = self\<lparr>isInstalled := False\<rparr>"

definition refreshFromConfig :: "backend \<Rightarrow> ModConfig \<Rightarrow> ReticleColorController \<Rightarrow> effect list \<times> ReticleColorController" where
  "refreshFromConfig env cfg self =
     applyCurrentColor env
       (self\<lparr>config := cfg, useAlternate := truthy (startWithAlternateColor cfg)\<rparr>)"

definition onAvatarReady :: "backend \<Rightarrow> ReticleColorController \<Rightarrow> effect list \<times> ReticleColorController" where
  "onAvatarReady env self =
     (if pendingUpdate self then applyCurrentColor env self else ([], self))"

text \<open>
  A run of \<^verbatim>\<open>toggle()\<close> calls, one for each client of the list, and the controller after it.
\<close>

fun toggles :: "backend list \<Rightarrow> ReticleColorController \<Rightarrow> ReticleColorController" where
  "toggles [] self = self"
| "toggles (env # envs) self = toggles envs (snd (toggle env self))"

section \<open>The right-click hook\<close>

text \<open>
  A \<^verbatim>\<open>handleMouseEvent\<close> method is one of the client's own, identified by a number, or a
  wrapper made by \<^verbatim>\<open>makeWrapper\<close> around a method; the wrapper's \<^verbatim>\<open>__original__\<close> is the
  method it was made around.  A method of the client has no \<^verbatim>\<open>__original__\<close>.
\<close>

datatype handler = Original nat | Wrapper handler


text \<open>
  The classes of the module \<^verbatim>\<open>control_modes\<close>, as Python keeps them.  A class is identified by
  a number.  \<open>moduleAttr\<close> is \<^verbatim>\<open>getattr(control_modes, name, None)\<close>: a name denotes a class or
  nothing, and two names may denote the same class.  \<open>ancestors\<close> gives the classes that follow
  a class in its \<^verbatim>\<open>__mro__\<close>, in that order.  \<open>ownMethod\<close> is the \<^verbatim>\<open>handleMouseEvent\<close> entry
  of the class's own \<^verbatim>\<open>__dict__\<close>, if it has one.  The import of \<^verbatim>\<open>control_modes\<close> is taken to
  succeed, and between two calls of the hook nobody else assigns to the classes.
\<close>

type_synonym cls = nat

record class_table =
  moduleAttr :: "string \<Rightarrow> cls option"
  ancestors :: "cls \<Rightarrow> cls list"
  ownMethod :: "cls \<Rightarrow> handler option"



definition assign :: "cls \<Rightarrow> handler \<Rightarrow> class_table \<Rightarrow> class_table" where
  "assign cls f t = t\<lparr>ownMethod := (ownMethod t)(cls := Some f)\<rparr>"














text \<open>
  A mouse event of the client.  \<^verbatim>\<open>isButtonDown\<close> is absent, or a method whose call raises
  or returns; \<^verbatim>\<open>button\<close> and \<^verbatim>\<open>key\<close> are attributes, each missing (\<^verbatim>\<open>AttributeError\<close>, for
  which \<^verbatim>\<open>getattr\<close> returns its default), failing with another exception, or holding a value.
\<close>

datatype attr = Missing | Failing | Attr pyval

record mouse_event =
  isButtonDown :: "pyval outcome option"
  button :: attr
  key :: attr

fun getattr_default :: "attr \<Rightarrow> pyval \<Rightarrow> pyval outcome" where
  "getattr_default Missing dflt = Return dflt"
| "getattr_default Failing dflt = Raise"
| "getattr_default (Attr v) dflt = Return v"

text \<open>
  \<^verbatim>\<open>x == Keys.KEY_RIGHTMOUSE\<close>: the constant is an integer key code of the client, an argument
  of the model.  Python compares a boolean with an integer as 0 or 1.
\<close>

fun py_eq_int :: "pyval \<Rightarrow> int \<Rightarrow> bool" where
  "py_eq_int (PInt i) k = (i = k)"
| "py_eq_int (PBool b) k = ((if b then 1 else 0) = k)"
| "py_eq_int PNone k = False"
| "py_eq_int (PStr s) k = False"
| "py_eq_int (PList xs) k = False"
| "py_eq_int (PDict kvs) k = False"

definition event_failed :: effect where
  "event_failed = LOG_CURRENT_EXCEPTION (MOD_ID @ '': error while processing mouse event'')"

definition shouldToggle :: "int \<Rightarrow> mouse_event option \<Rightarrow> effect list \<times> bool" where
  "shouldToggle KEY_RIGHTMOUSE event =
     (case event of
        None \<Rightarrow> ([], False)
      | Some ev \<Rightarrow>
          (case isButtonDown ev of
             None \<Rightarrow> ([], False)
           | Some Raise \<Rightarrow> ([event_failed], False)
           | Some (Return down) \<Rightarrow>
               (if truthy down then
                  (case getattr_default (key ev) PNone of
                     Raise \<Rightarrow> ([event_failed], False)
                   | Return dflt \<Rightarrow>
                       (case getattr_default (button ev) dflt of
                          Raise \<Rightarrow> ([event_failed], False)
                        | Return k \<Rightarrow> ([], py_eq_int k KEY_RIGHTMOUSE)))
                else ([], False))))"

text \<open>
  Calling a handler on an instance with an event: \<open>orig\<close> is what the client's own method
  does when it is reached with this instance and event (it raises, or returns a value), and
  \<open>ref\<close> is what the weak reference to the controller yields (\<open>None\<close> once the controller is
  gone).  The result is the effects, the controller afterwards, and what the call returns.
\<close>

fun callHandler :: "int \<Rightarrow> backend \<Rightarrow> pyval outcome \<Rightarrow> handler \<Rightarrow> nat \<Rightarrow> mouse_event option \<Rightarrow>
    ReticleColorController option \<Rightarrow> effect list \<times> ReticleColorController option \<times> pyval outcome" where
  "callHandler K env orig (Original m) instance event ref = ([CallOriginal m instance], ref, orig)"
| "callHandler K env orig (Wrapper method) instance event ref =
     (let (inspected, should) = shouldToggle K event;
          (effects, ref', result) =
            (if should then
               (case ref of
                  Some controller \<Rightarrow>
                    (let (applied, controller') = toggle env controller
                     in (applied, Some controller', Return (PBool True)))
                | None \<Rightarrow> callHandler K env orig method instance event ref)
             else callHandler K env orig method instance event ref)
      in (inspected @ effects, ref', result))"

section \<open>Properties of the configuration store\<close>

lemma setattr_cases:
  "setattr_config self name v = Inr self' \<Longrightarrow>
     (name = ''enabled'' \<and> self' = self\<lparr>enabled := v\<rparr>) \<or>
     (name = ''baseColor'' \<and> self' = self\<lparr>baseColor := v\<rparr>) \<or>
     (name = ''alternateColor'' \<and> self' = self\<lparr>alternateColor := v\<rparr>) \<or>
     (name = ''startWithAlternateColor'' \<and> self' = self\<lparr>startWithAlternateColor := v\<rparr>)"
  unfolding setattr_config_def
  by (simp split: if_splits)

lemma getattr_upd_enabled:
  "getattr_config (self\<lparr>enabled := v\<rparr>) k = (if k = ''enabled'' then Inr v else getattr_config self k)"
  by (simp add: getattr_config_def)

lemma getattr_upd_baseColor:
  "getattr_config (self\<lparr>baseColor := v\<rparr>) k = (if k = ''baseColor'' then Inr v else getattr_config self k)"
  by (simp add: getattr_config_def)

lemma getattr_upd_alternateColor:
  "getattr_config (self\<lparr>alternateColor := v\<rparr>) k =
     (if k = ''alternateColor'' then Inr v else getattr_config self k)"
  by (simp add: getattr_config_def)

lemma getattr_upd_startWithAlternateColor:
  "getattr_config (self\<lparr>startWithAlternateColor := v\<rparr>) k =
     (if k = ''startWithAlternateColor'' then Inr v else getattr_config self k)"
  by (simp add: getattr_config_def)

lemma getattr_setattr:
  assumes "setattr_config self name v = Inr self'"
  shows "getattr_config self' k = (if k = name then Inr v else getattr_config self k)"
  using setattr_cases [OF assms]
  by (elim disjE conjE; hypsubst;
      simp only: getattr_upd_enabled getattr_upd_baseColor getattr_upd_alternateColor
        getattr_upd_startWithAlternateColor)

lemma setattr_known:
  "name \<in> set (map fst DEFAULT_CONFIG) \<Longrightarrow> \<exists>self'. setattr_config self name v = Inr self'"
  unfolding DEFAULT_CONFIG_def setattr_config_def by auto


lemma overlay_dict:
  "set keys \<subseteq> set (map fst DEFAULT_CONFIG) \<Longrightarrow>
   \<exists>c. overlay keys (PDict d) self = Inr c \<and>
     (\<forall>k. getattr_config c k =
        (if k \<in> set keys then (case map_of d k of None \<Rightarrow> getattr_config self k | Some v \<Rightarrow> Inr v)
         else getattr_config self k))"
proof (induction keys arbitrary: self)
  case Nil
  then show ?case by simp
next
  case (Cons name keys)
  then have sub: "set keys \<subseteq> set (map fst DEFAULT_CONFIG)" and
    name: "name \<in> set (map fst DEFAULT_CONFIG)" by simp_all
  show ?case
  proof (cases "map_of d name")
    case None
    from Cons.IH [OF sub, of self] obtain c where
      c: "overlay keys (PDict d) self = Inr c"
      "\<forall>k. getattr_config c k =
        (if k \<in> set keys then (case map_of d k of None \<Rightarrow> getattr_config self k | Some v \<Rightarrow> Inr v)
         else getattr_config self k)" by blast
    have "overlay (name # keys) (PDict d) self = Inr c" using None c(1) by simp
    moreover have "\<forall>k. getattr_config c k =
        (if k \<in> set (name # keys) then (case map_of d k of None \<Rightarrow> getattr_config self k | Some v \<Rightarrow> Inr v)
         else getattr_config self k)" using None c(2) by simp
    ultimately show ?thesis by blast
  next
    case (Some v)
    from setattr_known [OF name] obtain self' where s': "setattr_config self name v = Inr self'"
      by blast
    note g = getattr_setattr [OF s']
    from Cons.IH [OF sub, of self'] obtain c where
      c: "overlay keys (PDict d) self' = Inr c"
      "\<forall>k. getattr_config c k =
        (if k \<in> set keys then (case map_of d k of None \<Rightarrow> getattr_config self' k | Some v \<Rightarrow> Inr v)
         else getattr_config self' k)" by blast
    have "overlay (name # keys) (PDict d) self = Inr c" using Some s' c(1) by simp
    moreover have "\<forall>k. getattr_config c k =
        (if k \<in> set (name # keys) then (case map_of d k of None \<Rightarrow> getattr_config self k | Some v \<Rightarrow> Inr v)
         else getattr_config self k)" using Some c(2) g by (simp split: option.splits)
    ultimately show ?thesis by blast
  qed
qed

lemma collect_defaults_keys:
  "collect (map fst DEFAULT_CONFIG) cfg =
     Inr [(''enabled'', enabled cfg), (''baseColor'', baseColor cfg),
          (''alternateColor'', alternateColor cfg),
          (''startWithAlternateColor'', startWithAlternateColor cfg)]"
  by (simp add: DEFAULT_CONFIG_def getattr_config_def)

lemma overlay_collected:
  "overlay (map fst DEFAULT_CONFIG)
     (PDict [(''enabled'', e), (''baseColor'', b), (''alternateColor'', a),
             (''startWithAlternateColor'', s)]) self
   = Inr \<lparr>enabled = e, baseColor = b, alternateColor = a, startWithAlternateColor = s\<rparr>"
  by (simp add: DEFAULT_CONFIG_def setattr_config_def)


lemma save_then_load:
  assumes "writeOutcome io = Written" and "dirExists fs \<or> makedirsOk io"
  shows "snd (snd (save io fs cfg)) = Inr ()"
    and "snd (snd (newModConfig io' (fst (snd (save io fs cfg))))) = Inr cfg"
  using assms
  by (cases "dirExists fs";
      simp add: save_def newModConfig_def load_def ensureConfigDirectory_def isfile_def
        collect_defaults_keys overlay_collected)+

lemma load_dict:
  assumes "dirExists fs" and "configFile fs = Doc (PDict d)"
  shows "\<exists>c. snd (snd (newModConfig io fs)) = Inr c \<and>
     (\<forall>k \<in> set (map fst DEFAULT_CONFIG). getattr_config c k =
        (case map_of d k of None \<Rightarrow> getattr_config defaults k | Some v \<Rightarrow> Inr v))"
proof -
  have "snd (snd (newModConfig io fs)) = overlay (map fst DEFAULT_CONFIG) (PDict d) defaults"
    using assms by (simp add: newModConfig_def load_def ensureConfigDirectory_def isfile_def)
  moreover from overlay_dict [OF subset_refl, of d defaults] obtain c where
    "overlay (map fst DEFAULT_CONFIG) (PDict d) defaults = Inr c"
    "\<forall>k. getattr_config c k =
        (if k \<in> set (map fst DEFAULT_CONFIG)
         then (case map_of d k of None \<Rightarrow> getattr_config defaults k | Some v \<Rightarrow> Inr v)
         else getattr_config defaults k)" by blast
  ultimately show ?thesis by simp
qed

text \<open>
  Claim C8.  Saving a configuration and then constructing a fresh store gives back the four
  saved fields, whatever they hold, provided the operating system lets \<^verbatim>\<open>save\<close> write the
  file (the directory exists or can be created, and the write succeeds).  And a fresh store
  that loads a JSON object from which exactly one of the four recognised keys is absent keeps
  the default of that key, while each of the other three fields holds the value the object
  has for it.
\<close>

theorem config_round_trip:
  "(writeOutcome io = Written \<and> (dirExists fs \<or> makedirsOk io) \<longrightarrow>
      snd (snd (save io fs cfg)) = Inr () \<and>
      snd (snd (newModConfig io' (fst (snd (save io fs cfg))))) = Inr cfg)
   \<and>
   (dirExists fs' \<and> configFile fs' = Doc (PDict d) \<and>
    name \<in> set (map fst DEFAULT_CONFIG) \<and> map_of d name = None \<and>
    (\<forall>k \<in> set (map fst DEFAULT_CONFIG) - {name}. map_of d k \<noteq> None) \<longrightarrow>
      (\<exists>c. snd (snd (newModConfig io' fs')) = Inr c \<and>
           getattr_config c name = getattr_config defaults name \<and>
           (\<forall>k \<in> set (map fst DEFAULT_CONFIG) - {name}.
              \<exists>v. map_of d k = Some v \<and> getattr_config c k = Inr v \<and>
                  py_getitem (PDict d) k = Inr v)))"
proof (intro conjI impI)
  assume "writeOutcome io = Written \<and> (dirExists fs \<or> makedirsOk io)"
  then show "snd (snd (save io fs cfg)) = Inr ()"
    by (simp add: save_then_load(1))
next
  assume "writeOutcome io = Written \<and> (dirExists fs \<or> makedirsOk io)"
  then show "snd (snd (newModConfig io' (fst (snd (save io fs cfg))))) = Inr cfg"
    by (simp add: save_then_load(2))
next
  assume h: "dirExists fs' \<and> configFile fs' = Doc (PDict d) \<and>
    name \<in> set (map fst DEFAULT_CONFIG) \<and> map_of d name = None \<and>
    (\<forall>k \<in> set (map fst DEFAULT_CONFIG) - {name}. map_of d k \<noteq> None)"
  from h load_dict [of fs' d io'] obtain c where
    c: "snd (snd (newModConfig io' fs')) = Inr c"
       "\<forall>k \<in> set (map fst DEFAULT_CONFIG). getattr_config c k =
        (case map_of d k of None \<Rightarrow> getattr_config defaults k | Some v \<Rightarrow> Inr v)"
    by blast
  from h have "name \<in> set (map fst DEFAULT_CONFIG)" and none: "map_of d name = None"
    by blast+
  with c(2) have "getattr_config c name =
      (case map_of d name of None \<Rightarrow> getattr_config defaults name | Some v \<Rightarrow> Inr v)"
    by blast
  with none have "getattr_config c name = getattr_config defaults name"
    by simp
  moreover have "\<forall>k \<in> set (map fst DEFAULT_CONFIG) - {name}.
      \<exists>v. map_of d k = Some v \<and> getattr_config c k = Inr v \<and> py_getitem (PDict d) k = Inr v"
  proof
    fix k assume k: "k \<in> set (map fst DEFAULT_CONFIG) - {name}"
    with h obtain v where v: "map_of d k = Some v" by blast
    from k c(2) have "getattr_config c k =
        (case map_of d k of None \<Rightarrow> getattr_config defaults k | Some v \<Rightarrow> Inr v)"
      by blast
    with v have "getattr_config c k = Inr v" by simp
    with v show "\<exists>v. map_of d k = Some v \<and> getattr_config c k = Inr v \<and>
        py_getitem (PDict d) k = Inr v" by simp
  qed
  ultimately show "\<exists>c. snd (snd (newModConfig io' fs')) = Inr c \<and>
           getattr_config c name = getattr_config defaults name \<and>
           (\<forall>k \<in> set (map fst DEFAULT_CONFIG) - {name}.
              \<exists>v. map_of d k = Some v \<and> getattr_config c k = Inr v \<and>
                  py_getitem (PDict d) k = Inr v)"
    using c(1) by blast
qed

theorem config_round_trip_witness:
  "writeOutcome \<lparr>makedirsOk = True, writeOutcome = Written\<rparr> = Written \<and>
   makedirsOk \<lparr>makedirsOk = True, writeOutcome = Written\<rparr> \<and>
   snd (snd (save \<lparr>makedirsOk = True, writeOutcome = Written\<rparr>
       \<lparr>dirExists = False, configFile = NoFile\<rparr>
       \<lparr>enabled = PBool False, baseColor = PStr ''#112233'', alternateColor = PStr ''#445566'',
         startWithAlternateColor = PBool True\<rparr>)) = Inr () \<and>
   snd (snd (newModConfig \<lparr>makedirsOk = False, writeOutcome = OpenFails\<rparr>
     (fst (snd (save \<lparr>makedirsOk = True, writeOutcome = Written\<rparr>
       \<lparr>dirExists = False, configFile = NoFile\<rparr>
       \<lparr>enabled = PBool False, baseColor = PStr ''#112233'', alternateColor = PStr ''#445566'',
         startWithAlternateColor = PBool True\<rparr>))))) =
     Inr \<lparr>enabled = PBool False, baseColor = PStr ''#112233'', alternateColor = PStr ''#445566'',
         startWithAlternateColor = PBool True\<rparr> \<and>
   map_of [(''enabled'', PBool False), (''baseColor'', PStr ''#112233''),
           (''startWithAlternateColor'', PBool True)] ''alternateColor'' = None \<and>
   (\<exists>c. snd (snd (newModConfig \<lparr>makedirsOk = False, writeOutcome = OpenFails\<rparr>
          \<lparr>dirExists = True, configFile = Doc (PDict [(''enabled'', PBool False),
             (''baseColor'', PStr ''#112233''), (''startWithAlternateColor'', PBool True)])\<rparr>)) = Inr c \<and>
        getattr_config c ''alternateColor'' = getattr_config defaults ''alternateColor'' \<and>
        (\<forall>k \<in> set (map fst DEFAULT_CONFIG) - {''alternateColor''}.
           \<exists>v. map_of [(''enabled'', PBool False), (''baseColor'', PStr ''#112233''),
                  (''startWithAlternateColor'', PBool True)] k = Some v \<and>
               getattr_config c k = Inr v \<and>
               py_getitem (PDict [(''enabled'', PBool False), (''baseColor'', PStr ''#112233''),
                  (''startWithAlternateColor'', PBool True)]) k = Inr v))"
proof -
  let ?io = "\<lparr>makedirsOk = True, writeOutcome = Written\<rparr>"
  let ?io' = "\<lparr>makedirsOk = False, writeOutcome = OpenFails\<rparr>"
  let ?fs = "\<lparr>dirExists = False, configFile = NoFile\<rparr>"
  let ?cfg = "\<lparr>enabled = PBool False, baseColor = PStr ''#112233'',
    alternateColor = PStr ''#445566'', startWithAlternateColor = PBool True\<rparr>"
  let ?d = "[(''enabled'', PBool False), (''baseColor'', PStr ''#112233''),
            (''startWithAlternateColor'', PBool True)]"
  let ?fs' = "\<lparr>dirExists = True, configFile = Doc (PDict ?d)\<rparr>"
  note t = config_round_trip [of ?io ?fs ?cfg ?io' ?fs' ?d "''alternateColor''"]
  have h1: "writeOutcome ?io = Written \<and> (dirExists ?fs \<or> makedirsOk ?io)"
    by simp
  have h2: "dirExists ?fs' \<and> configFile ?fs' = Doc (PDict ?d) \<and>
      ''alternateColor'' \<in> set (map fst DEFAULT_CONFIG) \<and> map_of ?d ''alternateColor'' = None \<and>
      (\<forall>k \<in> set (map fst DEFAULT_CONFIG) - {''alternateColor''}. map_of ?d k \<noteq> None)"
    by (simp add: DEFAULT_CONFIG_def insert_Diff_if)
  note c1 = t [THEN conjunct1, THEN mp, OF h1]
  note c2 = t [THEN conjunct2, THEN mp, OF h2]
  have e: "writeOutcome ?io = Written" "makedirsOk ?io" "map_of ?d ''alternateColor'' = None"
    by simp_all
  show ?thesis
    by (intro conjI e c1 [THEN conjunct1] c1 [THEN conjunct2] c2)
qed

text \<open>
  Claim C9.  \<^verbatim>\<open>load\<close> does raise to its caller: the loop that overlays the keys stands after
  the \<^verbatim>\<open>try\<close> block, and on a settings file that holds the JSON number 42 its first
  \<^verbatim>\<open>key in data\<close> raises \<^verbatim>\<open>TypeError\<close>, which leaves \<^verbatim>\<open>load\<close> and the constructor of the
  store (nothing is logged, and no store is returned).
\<close>

theorem load_raises_on_number_document:
  "newModConfig io \<lparr>dirExists = True, configFile = Doc (PInt 42)\<rparr>
     = ([], \<lparr>dirExists = True, configFile = Doc (PInt 42)\<rparr>, Inl TypeError)"
  by (simp add: newModConfig_def load_def ensureConfigDirectory_def isfile_def DEFAULT_CONFIG_def)



section \<open>Properties of the color controller\<close>

lemma applyCurrentColor_eq:
  "applyCurrentColor env self =
     (fst (applyGunMarkerColor env (currentColor self)) @
        (if snd (applyGunMarkerColor env (currentColor self)) then [] else [deferred]),
      self\<lparr>pendingUpdate := \<not> snd (applyGunMarkerColor env (currentColor self))\<rparr>)"
  by (simp add: applyCurrentColor_def split_def)

lemma applyCurrentColor_keeps:
  "config (snd (applyCurrentColor env self)) = config self"
  "useAlternate (snd (applyCurrentColor env self)) = useAlternate self"
  "isInstalled (snd (applyCurrentColor env self)) = isInstalled self"
  by (simp_all add: applyCurrentColor_eq)

lemma currentColor_pendingUpdate [simp]:
  "currentColor (self\<lparr>pendingUpdate := b\<rparr>) = currentColor self"
  by (simp add: currentColor_def)

lemma toggle_enabled:
  "truthy (enabled (config self)) \<Longrightarrow>
   toggle env self =
     (toggled (\<not> useAlternate self) #
        fst (applyCurrentColor env (self\<lparr>useAlternate := \<not> useAlternate self\<rparr>)),
      snd (applyCurrentColor env (self\<lparr>useAlternate := \<not> useAlternate self\<rparr>)))"
  by (simp add: toggle_def split_def Let_def)

lemma toggle_keeps_config: "config (snd (toggle env self)) = config self"
  by (simp add: toggle_def split_def Let_def applyCurrentColor_keeps)

lemma toggle_flips:
  "truthy (enabled (config self)) \<Longrightarrow> useAlternate (snd (toggle env self)) = (\<not> useAlternate self)"
  by (simp add: toggle_enabled applyCurrentColor_keeps)

lemma toggles_state:
  "truthy (enabled (config self)) \<Longrightarrow>
   config (toggles envs self) = config self \<and>
   useAlternate (toggles envs self) = (useAlternate self \<noteq> odd (length envs))"
proof (induction envs arbitrary: self)
  case Nil
  then show ?case by simp
next
  case (Cons env envs)
  let ?s = "snd (toggle env self)"
  have en: "truthy (enabled (config ?s))"
    using Cons.prems by (simp add: toggle_keeps_config)
  from Cons.IH [OF en] Cons.prems show ?case
    by (simp add: toggle_keeps_config toggle_flips)
qed

lemma applyThroughSettings_no_crosshair_call:
  "SetReticleColor v \<notin> set (fst (applyThroughSettings env hexColor))"
  "SetOverrideReticleColor v \<notin> set (fst (applyThroughSettings env hexColor))"
  by (simp_all add: applyThroughSettings_def settings_failed_def Let_def
      split: option.splits outcome.splits)

lemma overwrite_all_other: "\<forall>kvs. v \<noteq> PDict kvs \<Longrightarrow> overwrite_all v hexColor = v"
  by (cases v) (simp_all add: overwrite_all_def)

lemma applyThroughSettings_no_original:
  "CallOriginal m i \<notin> set (fst (applyThroughSettings env hexColor))"
  by (simp add: applyThroughSettings_def settings_failed_def Let_def
      split: option.splits outcome.splits)

lemma applyGunMarkerColor_no_original:
  "CallOriginal m i \<notin> set (fst (applyGunMarkerColor env hexColor))"
  by (simp add: applyGunMarkerColor_def after_def crosshair_failed_def
      applyThroughSettings_no_original split: option.splits outcome.splits)

lemma toggle_no_original:
  "CallOriginal m i \<notin> set (fst (toggle env self))"
  by (simp add: toggle_def split_def Let_def toggled_def applyCurrentColor_eq deferred_def
      applyGunMarkerColor_no_original)

text \<open>
  Claim C7.  While the \<^verbatim>\<open>enabled\<close> field of the configuration is false (in Python's sense),
  \<^verbatim>\<open>toggle()\<close> has no effect at all: the controller is returned as it was, so
  \<^verbatim>\<open>useAlternate\<close> and \<^verbatim>\<open>pendingUpdate\<close> keep their values, and the list of effects is empty,
  so no apply attempt is made, no collaborator is called and nothing is logged.
\<close>

theorem toggle_disabled_is_noop:
  "\<not> truthy (enabled (config self)) \<Longrightarrow> toggle env self = ([], self)"
  by (simp add: toggle_def)

theorem toggle_disabled_is_noop_witness:
  "\<not> truthy (enabled (config (newController (defaults\<lparr>enabled := PBool False\<rparr>)))) \<and>
   toggle (\<lparr>sessionProvider = Some (Some (\<lparr>setOverrideReticleColor = Some (Return ()), setReticleColor = Some (Return ())\<rparr>)), settingsCore = None\<rparr>)
     (newController (defaults\<lparr>enabled := PBool False\<rparr>)) =
   ([], newController (defaults\<lparr>enabled := PBool False\<rparr>))"
  using toggle_disabled_is_noop [of "newController (defaults\<lparr>enabled := PBool False\<rparr>)"
      "\<lparr>sessionProvider = Some (Some (\<lparr>setOverrideReticleColor = Some (Return ()), setReticleColor = Some (Return ())\<rparr>)), settingsCore = None\<rparr>"]
  by (simp add: newController_def defaults_def)

text \<open>
  Claim C2.  When an \<^verbatim>\<open>applyCurrentColor()\<close> finds every strategy failing (the attempt
  returns false), \<^verbatim>\<open>pendingUpdate\<close> is true afterwards; the next \<^verbatim>\<open>onAvatarReady()\<close> is then
  exactly one \<^verbatim>\<open>applyCurrentColor()\<close> with the client of that moment, its effects are those of
  one apply attempt, and it leaves \<^verbatim>\<open>pendingUpdate\<close> false if and only if that attempt
  succeeds; after a successful retry a further \<^verbatim>\<open>onAvatarReady()\<close> does nothing.  An
  \<^verbatim>\<open>applyCurrentColor()\<close> whose attempt succeeds always leaves \<^verbatim>\<open>pendingUpdate\<close> false.
\<close>

theorem pending_retry:
  "(\<not> snd (applyGunMarkerColor env (currentColor self)) \<longrightarrow>
      pendingUpdate (snd (applyCurrentColor env self)) \<and>
      onAvatarReady env' (snd (applyCurrentColor env self)) =
        applyCurrentColor env' (snd (applyCurrentColor env self)) \<and>
      fst (onAvatarReady env' (snd (applyCurrentColor env self))) =
        fst (applyGunMarkerColor env' (currentColor self)) @
          (if snd (applyGunMarkerColor env' (currentColor self)) then [] else [deferred]) \<and>
      pendingUpdate (snd (onAvatarReady env' (snd (applyCurrentColor env self)))) =
        (\<not> snd (applyGunMarkerColor env' (currentColor self))) \<and>
      (snd (applyGunMarkerColor env' (currentColor self)) \<longrightarrow>
         onAvatarReady env'' (snd (onAvatarReady env' (snd (applyCurrentColor env self)))) =
           ([], snd (onAvatarReady env' (snd (applyCurrentColor env self))))))
   \<and> (snd (applyGunMarkerColor env (currentColor self)) \<longrightarrow>
        \<not> pendingUpdate (snd (applyCurrentColor env self)))"
  by (simp add: onAvatarReady_def applyCurrentColor_eq)

theorem pending_retry_witness:
  "\<not> snd (applyGunMarkerColor (\<lparr>sessionProvider = None, settingsCore = None\<rparr>) (currentColor (newController defaults))) \<and>
   pendingUpdate (snd (applyCurrentColor (\<lparr>sessionProvider = None, settingsCore = None\<rparr>) (newController defaults))) \<and>
   fst (onAvatarReady (\<lparr>sessionProvider = Some (Some (\<lparr>setOverrideReticleColor = Some (Return ()), setReticleColor = Some (Return ())\<rparr>)), settingsCore = None\<rparr>)
          (snd (applyCurrentColor (\<lparr>sessionProvider = None, settingsCore = None\<rparr>) (newController defaults)))) =
     [SetOverrideReticleColor (PStr ''#FFCC00'')] \<and>
   \<not> pendingUpdate (snd (onAvatarReady (\<lparr>sessionProvider = Some (Some (\<lparr>setOverrideReticleColor = Some (Return ()), setReticleColor = Some (Return ())\<rparr>)), settingsCore = None\<rparr>)
          (snd (applyCurrentColor (\<lparr>sessionProvider = None, settingsCore = None\<rparr>) (newController defaults))))) \<and>
   fst (onAvatarReady (\<lparr>sessionProvider = Some (Some (\<lparr>setOverrideReticleColor = Some (Return ()), setReticleColor = Some (Return ())\<rparr>)), settingsCore = None\<rparr>)
          (snd (onAvatarReady (\<lparr>sessionProvider = Some (Some (\<lparr>setOverrideReticleColor = Some (Return ()), setReticleColor = Some (Return ())\<rparr>)), settingsCore = None\<rparr>)
             (snd (applyCurrentColor (\<lparr>sessionProvider = None, settingsCore = None\<rparr>) (newController defaults)))))) = []"
  using pending_retry [of "\<lparr>sessionProvider = None, settingsCore = None\<rparr>" "newController defaults"
      "\<lparr>sessionProvider = Some (Some (\<lparr>setOverrideReticleColor = Some (Return ()), setReticleColor = Some (Return ())\<rparr>)), settingsCore = None\<rparr>"
      "\<lparr>sessionProvider = Some (Some (\<lparr>setOverrideReticleColor = Some (Return ()), setReticleColor = Some (Return ())\<rparr>)), settingsCore = None\<rparr>"]
  by (simp add: onAvatarReady_def applyCurrentColor_eq applyGunMarkerColor_def
      applyThroughSettings_def currentColor_def newController_def defaults_def)

text \<open>
  Claim C4.  Let \<open>N\<close> toggles be made while \<^verbatim>\<open>enabled\<close> is true, the first \<open>N - 1\<close> with the
  clients \<open>envs\<close> and the \<open>N\<close>th with the client \<open>env\<close>, where any of the apply attempts may
  fail.  The \<open>N\<close>th toggle logs and makes its apply attempt with \<^verbatim>\<open>alternateColor\<close> exactly
  when the seed of \<^verbatim>\<open>useAlternate\<close> differs from the parity of \<open>N\<close> (seeded false: when \<open>N\<close>
  is odd; seeded true: when \<open>N\<close> is even), and with \<^verbatim>\<open>baseColor\<close> otherwise; and
  \<^verbatim>\<open>useAlternate\<close> has that value after the toggle whether or not the attempt succeeded.
\<close>

theorem toggle_parity:
  "truthy (enabled (config self)) \<Longrightarrow>
   useAlternate (snd (toggle env (toggles envs self))) =
     (useAlternate self \<noteq> odd (Suc (length envs))) \<and>
   fst (toggle env (toggles envs self)) =
     toggled (useAlternate self \<noteq> odd (Suc (length envs))) #
     fst (applyGunMarkerColor env
            (if useAlternate self \<noteq> odd (Suc (length envs)) then alternateColor (config self)
             else baseColor (config self))) @
     (if snd (applyGunMarkerColor env
            (if useAlternate self \<noteq> odd (Suc (length envs)) then alternateColor (config self)
             else baseColor (config self)))
      then [] else [deferred])"
proof -
  assume en: "truthy (enabled (config self))"
  let ?before = "toggles envs self"
  from toggles_state [OF en, of envs] have
    cfg: "config ?before = config self" and
    alt: "useAlternate ?before = (useAlternate self \<noteq> odd (length envs))"
    by simp_all
  have en': "truthy (enabled (config ?before))"
    using en cfg by simp
  have flip: "(\<not> useAlternate ?before) = (useAlternate self \<noteq> odd (Suc (length envs)))"
    using alt by simp
  have color: "currentColor (?before\<lparr>useAlternate := \<not> useAlternate ?before\<rparr>) =
      (if useAlternate self \<noteq> odd (Suc (length envs)) then alternateColor (config self)
       else baseColor (config self))"
    unfolding currentColor_def using cfg flip by simp
  show ?thesis
    unfolding toggle_enabled [OF en'] applyCurrentColor_eq color using flip by simp
qed

theorem toggle_parity_witness:
  "truthy (enabled (config (newController defaults))) \<and>
   useAlternate (snd (toggle (\<lparr>sessionProvider = None, settingsCore = None\<rparr>)
      (toggles [\<lparr>sessionProvider = None, settingsCore = None\<rparr>,
                \<lparr>sessionProvider = Some (Some (\<lparr>setOverrideReticleColor = Some (Return ()), setReticleColor = Some (Return ())\<rparr>)), settingsCore = None\<rparr>] (newController defaults)))) \<and>
   fst (toggle (\<lparr>sessionProvider = None, settingsCore = None\<rparr>)
      (toggles [\<lparr>sessionProvider = None, settingsCore = None\<rparr>,
                \<lparr>sessionProvider = Some (Some (\<lparr>setOverrideReticleColor = Some (Return ()), setReticleColor = Some (Return ())\<rparr>)), settingsCore = None\<rparr>] (newController defaults))) =
     [toggled True, deferred]"
  using toggle_parity [of "newController defaults" "\<lparr>sessionProvider = None, settingsCore = None\<rparr>"
      "[\<lparr>sessionProvider = None, settingsCore = None\<rparr>,
        \<lparr>sessionProvider = Some (Some (\<lparr>setOverrideReticleColor = Some (Return ()), setReticleColor = Some (Return ())\<rparr>)), settingsCore = None\<rparr>]"]
  by (simp add: applyGunMarkerColor_def applyThroughSettings_def newController_def defaults_def)

text \<open>
  Claim C10.  In the settings fallback, when the setting is reached, its system value is read
  and is not a dictionary, and \<^verbatim>\<open>setSystemValue\<close> and \<^verbatim>\<open>apply\<close> return, the fallback calls
  \<^verbatim>\<open>setSystemValue\<close> with the value it read, unchanged, then \<^verbatim>\<open>apply()\<close>, and returns
  \<^verbatim>\<open>True\<close>; the apply attempt as a whole then succeeds and \<^verbatim>\<open>applyCurrentColor\<close> leaves
  \<^verbatim>\<open>pendingUpdate\<close> false, although the requested color was written nowhere.
\<close>

theorem settings_fallback_non_mapping:
  "settingsCore env = Some core \<Longrightarrow> options core = Return (Some opts) \<Longrightarrow>
   getSetting opts = Return (Some setting) \<Longrightarrow> getSystemValue setting = Return v \<Longrightarrow>
   \<forall>kvs. v \<noteq> PDict kvs \<Longrightarrow>
   setSystemValue setting = Return () \<Longrightarrow> applySetting setting = Return () \<Longrightarrow>
   applyThroughSettings env hexColor =
     ([GetSetting, GetSystemValue, SetSystemValue v, ApplySetting], True) \<and>
   snd (applyGunMarkerColor env hexColor) \<and>
   \<not> pendingUpdate (snd (applyCurrentColor env self))"
proof -
  assume a: "settingsCore env = Some core" "options core = Return (Some opts)"
    "getSetting opts = Return (Some setting)" "getSystemValue setting = Return v"
    "\<forall>kvs. v \<noteq> PDict kvs" "setSystemValue setting = Return ()" "applySetting setting = Return ()"
  have t: "applyThroughSettings env c =
     ([GetSetting, GetSystemValue, SetSystemValue v, ApplySetting], True)" for c
    using a by (simp add: applyThroughSettings_def overwrite_all_other)
  have g: "snd (applyGunMarkerColor env c)" for c
    by (simp add: applyGunMarkerColor_def after_def t split: option.splits outcome.splits)
  show ?thesis
    using t g by (simp add: applyCurrentColor_eq)
qed

theorem settings_fallback_non_mapping_witness:
  "getSystemValue (\<lparr>getSystemValue = Return (PStr ''#FFFFFF''), setSystemValue = Return (), applySetting = Return ()\<rparr>) = Return (PStr ''#FFFFFF'') \<and>
   (\<forall>kvs. PStr ''#FFFFFF'' \<noteq> PDict kvs) \<and>
   applyThroughSettings (\<lparr>sessionProvider = None, settingsCore = Some (\<lparr>options = Return (Some (\<lparr>getSetting = Return (Some (\<lparr>getSystemValue = Return (PStr ''#FFFFFF''), setSystemValue = Return (), applySetting = Return ()\<rparr>))\<rparr>))\<rparr>)\<rparr>) (PStr ''#00FFDE'') =
     ([GetSetting, GetSystemValue, SetSystemValue (PStr ''#FFFFFF''), ApplySetting], True) \<and>
   snd (applyGunMarkerColor (\<lparr>sessionProvider = None, settingsCore = Some (\<lparr>options = Return (Some (\<lparr>getSetting = Return (Some (\<lparr>getSystemValue = Return (PStr ''#FFFFFF''), setSystemValue = Return (), applySetting = Return ()\<rparr>))\<rparr>))\<rparr>)\<rparr>) (PStr ''#00FFDE'')) \<and>
   pendingUpdate ((newController defaults)\<lparr>pendingUpdate := True\<rparr>) \<and>
   \<not> pendingUpdate (snd (applyCurrentColor (\<lparr>sessionProvider = None, settingsCore = Some (\<lparr>options = Return (Some (\<lparr>getSetting = Return (Some (\<lparr>getSystemValue = Return (PStr ''#FFFFFF''), setSystemValue = Return (), applySetting = Return ()\<rparr>))\<rparr>))\<rparr>)\<rparr>) ((newController defaults)\<lparr>pendingUpdate := True\<rparr>)))"
proof -
  note t = settings_fallback_non_mapping [of "\<lparr>sessionProvider = None, settingsCore = Some (\<lparr>options = Return (Some (\<lparr>getSetting = Return (Some (\<lparr>getSystemValue = Return (PStr ''#FFFFFF''), setSystemValue = Return (), applySetting = Return ()\<rparr>))\<rparr>))\<rparr>)\<rparr>" "\<lparr>options = Return (Some (\<lparr>getSetting = Return (Some (\<lparr>getSystemValue = Return (PStr ''#FFFFFF''), setSystemValue = Return (), applySetting = Return ()\<rparr>))\<rparr>))\<rparr>" "\<lparr>getSetting = Return (Some (\<lparr>getSystemValue = Return (PStr ''#FFFFFF''), setSystemValue = Return (), applySetting = Return ()\<rparr>))\<rparr>" "\<lparr>getSystemValue = Return (PStr ''#FFFFFF''), setSystemValue = Return (), applySetting = Return ()\<rparr>" "PStr ''#FFFFFF''" "PStr ''#00FFDE''" "(newController defaults)\<lparr>pendingUpdate := True\<rparr>"]
  have "applyThroughSettings (\<lparr>sessionProvider = None, settingsCore = Some (\<lparr>options = Return (Some (\<lparr>getSetting = Return (Some (\<lparr>getSystemValue = Return (PStr ''#FFFFFF''), setSystemValue = Return (), applySetting = Return ()\<rparr>))\<rparr>))\<rparr>)\<rparr>) (PStr ''#00FFDE'') =
     ([GetSetting, GetSystemValue, SetSystemValue (PStr ''#FFFFFF''), ApplySetting], True) \<and>
   snd (applyGunMarkerColor (\<lparr>sessionProvider = None, settingsCore = Some (\<lparr>options = Return (Some (\<lparr>getSetting = Return (Some (\<lparr>getSystemValue = Return (PStr ''#FFFFFF''), setSystemValue = Return (), applySetting = Return ()\<rparr>))\<rparr>))\<rparr>)\<rparr>) (PStr ''#00FFDE'')) \<and>
   \<not> pendingUpdate (snd (applyCurrentColor (\<lparr>sessionProvider = None, settingsCore = Some (\<lparr>options = Return (Some (\<lparr>getSetting = Return (Some (\<lparr>getSystemValue = Return (PStr ''#FFFFFF''), setSystemValue = Return (), applySetting = Return ()\<rparr>))\<rparr>))\<rparr>)\<rparr>) ((newController defaults)\<lparr>pendingUpdate := True\<rparr>)))"
    by (rule t) simp_all
  then show ?thesis by simp
qed

text \<open>
  Claim C3, as the code has it.  When the crosshair controller is reachable and has
  \<^verbatim>\<open>setOverrideReticleColor\<close>, that method is the first call of the attempt and
  \<^verbatim>\<open>setReticleColor\<close> is never called.  When the call returns, it is the only effect and the
  attempt succeeds, so the settings core is not touched.  When the call raises, the exception
  is logged and the settings fallback runs.
\<close>

theorem override_has_priority:
  "sessionProvider env = Some (Some c) \<Longrightarrow> setOverrideReticleColor c = Some r \<Longrightarrow>
   (\<exists>rest. fst (applyGunMarkerColor env hexColor) = SetOverrideReticleColor hexColor # rest) \<and>
   (\<forall>v. SetReticleColor v \<notin> set (fst (applyGunMarkerColor env hexColor))) \<and>
   (r = Return () \<longrightarrow>
      applyGunMarkerColor env hexColor = ([SetOverrideReticleColor hexColor], True)) \<and>
   (r = Raise \<longrightarrow>
      applyGunMarkerColor env hexColor =
        after [SetOverrideReticleColor hexColor, crosshair_failed]
          (applyThroughSettings env hexColor))"
  by (cases r)
     (simp_all add: applyGunMarkerColor_def after_def crosshair_failed_def
        applyThroughSettings_no_crosshair_call)

theorem override_has_priority_witness:
  "sessionProvider (\<lparr>sessionProvider = Some (Some (\<lparr>setOverrideReticleColor = Some (Return ()), setReticleColor = Some (Return ())\<rparr>)), settingsCore = Some (\<lparr>options = Return (Some (\<lparr>getSetting = Return (Some (\<lparr>getSystemValue = Return (PDict [(''arcade'', PStr ''#FFCC00''), (''sniper'', PStr ''#FFCC00'')]), setSystemValue = Return (), applySetting = Return ()\<rparr>))\<rparr>))\<rparr>)\<rparr>) = Some (Some (\<lparr>setOverrideReticleColor = Some (Return ()), setReticleColor = Some (Return ())\<rparr>)) \<and>
   setOverrideReticleColor (\<lparr>setOverrideReticleColor = Some (Return ()), setReticleColor = Some (Return ())\<rparr>) = Some (Return ()) \<and>
   applyGunMarkerColor (\<lparr>sessionProvider = Some (Some (\<lparr>setOverrideReticleColor = Some (Return ()), setReticleColor = Some (Return ())\<rparr>)), settingsCore = Some (\<lparr>options = Return (Some (\<lparr>getSetting = Return (Some (\<lparr>getSystemValue = Return (PDict [(''arcade'', PStr ''#FFCC00''), (''sniper'', PStr ''#FFCC00'')]), setSystemValue = Return (), applySetting = Return ()\<rparr>))\<rparr>))\<rparr>)\<rparr>) (PStr ''#00FFDE'') = ([SetOverrideReticleColor (PStr ''#00FFDE'')], True) \<and>
   (\<forall>v. SetReticleColor v \<notin> set (fst (applyGunMarkerColor (\<lparr>sessionProvider = Some (Some (\<lparr>setOverrideReticleColor = Some (Return ()), setReticleColor = Some (Return ())\<rparr>)), settingsCore = Some (\<lparr>options = Return (Some (\<lparr>getSetting = Return (Some (\<lparr>getSystemValue = Return (PDict [(''arcade'', PStr ''#FFCC00''), (''sniper'', PStr ''#FFCC00'')]), setSystemValue = Return (), applySetting = Return ()\<rparr>))\<rparr>))\<rparr>)\<rparr>) (PStr ''#00FFDE''))))"
  using override_has_priority [of "\<lparr>sessionProvider = Some (Some (\<lparr>setOverrideReticleColor = Some (Return ()), setReticleColor = Some (Return ())\<rparr>)), settingsCore = Some (\<lparr>options = Return (Some (\<lparr>getSetting = Return (Some (\<lparr>getSystemValue = Return (PDict [(''arcade'', PStr ''#FFCC00''), (''sniper'', PStr ''#FFCC00'')]), setSystemValue = Return (), applySetting = Return ()\<rparr>))\<rparr>))\<rparr>)\<rparr>" "\<lparr>setOverrideReticleColor = Some (Return ()), setReticleColor = Some (Return ())\<rparr>" "Return ()" "PStr ''#00FFDE''"]
  by simp

text \<open>
  The claim as stated, that the settings fallback is never invoked when the crosshair
  controller has \<^verbatim>\<open>setOverrideReticleColor\<close>, fails on a client where that call raises and the
  settings core works: the fallback then rewrites the two entries of the setting and applies it.
\<close>

theorem override_raises_settings_used:
  "applyGunMarkerColor (\<lparr>sessionProvider = Some (Some (\<lparr>setOverrideReticleColor = Some Raise, setReticleColor = Some (Return ())\<rparr>)), settingsCore = Some (\<lparr>options = Return (Some (\<lparr>getSetting = Return (Some (\<lparr>getSystemValue = Return (PDict [(''arcade'', PStr ''#FFCC00''), (''sniper'', PStr ''#FFCC00'')]), setSystemValue = Return (), applySetting = Return ()\<rparr>))\<rparr>))\<rparr>)\<rparr>) (PStr ''#00FFDE'') =
     ([SetOverrideReticleColor (PStr ''#00FFDE''), crosshair_failed, GetSetting, GetSystemValue,
       SetSystemValue (PDict [(''arcade'', PStr ''#00FFDE''), (''sniper'', PStr ''#00FFDE'')]), ApplySetting], True)"
  by (simp add: applyGunMarkerColor_def applyThroughSettings_def after_def overwrite_all_def)

text \<open>
  Claim C1, as the code has it.  The two calls on the crosshair controller stand in one
  \<^verbatim>\<open>try\<close> block.  An exception of \<^verbatim>\<open>setOverrideReticleColor\<close>, or of \<^verbatim>\<open>setReticleColor\<close>
  when only that method exists, is logged and the attempt goes on with the settings fallback,
  which never calls \<^verbatim>\<open>setReticleColor\<close>.  An exception raised in the settings fallback
  (reading \<^verbatim>\<open>options\<close>, \<^verbatim>\<open>getSetting\<close>, \<^verbatim>\<open>getSystemValue\<close>, \<^verbatim>\<open>setSystemValue\<close>,
  \<^verbatim>\<open>apply\<close>) is logged and the attempt returns \<^verbatim>\<open>False\<close>.
\<close>

theorem exception_falls_through_to_settings:
  "(sessionProvider env = Some (Some c) \<and> setOverrideReticleColor c = Some Raise \<longrightarrow>
      applyGunMarkerColor env hexColor =
        after [SetOverrideReticleColor hexColor, crosshair_failed]
          (applyThroughSettings env hexColor)) \<and>
   (sessionProvider env = Some (Some c) \<and> setOverrideReticleColor c = None \<and>
    setReticleColor c = Some Raise \<longrightarrow>
      applyGunMarkerColor env hexColor =
        after [SetReticleColor hexColor, crosshair_failed]
          (applyThroughSettings env hexColor)) \<and>
   (\<forall>v. SetReticleColor v \<notin> set (fst (applyThroughSettings env hexColor))) \<and>
   (settingsCore env = Some core \<and> options core = Raise \<longrightarrow>
      applyThroughSettings env hexColor = ([settings_failed], False)) \<and>
   (settingsCore env = Some core \<and> options core = Return (Some opts) \<and>
    getSetting opts = Raise \<longrightarrow>
      applyThroughSettings env hexColor = ([GetSetting, settings_failed], False)) \<and>
   (settingsCore env = Some core \<and> options core = Return (Some opts) \<and>
    getSetting opts = Return (Some setting) \<and> getSystemValue setting = Raise \<longrightarrow>
      applyThroughSettings env hexColor = ([GetSetting, GetSystemValue, settings_failed], False)) \<and>
   (settingsCore env = Some core \<and> options core = Return (Some opts) \<and>
    getSetting opts = Return (Some setting) \<and> getSystemValue setting = Return v \<and>
    setSystemValue setting = Raise \<longrightarrow>
      applyThroughSettings env hexColor =
        ([GetSetting, GetSystemValue, SetSystemValue (overwrite_all v hexColor), settings_failed],
         False)) \<and>
   (settingsCore env = Some core \<and> options core = Return (Some opts) \<and>
    getSetting opts = Return (Some setting) \<and> getSystemValue setting = Return v \<and>
    setSystemValue setting = Return () \<and> applySetting setting = Raise \<longrightarrow>
      applyThroughSettings env hexColor =
        ([GetSetting, GetSystemValue, SetSystemValue (overwrite_all v hexColor), ApplySetting,
          settings_failed], False))"
  by (intro conjI;
      ((simp add: applyThroughSettings_no_crosshair_call; fail) |
       simp add: applyGunMarkerColor_def applyThroughSettings_def))

theorem exception_falls_through_to_settings_witness:
  "applyGunMarkerColor (\<lparr>sessionProvider = Some (Some (\<lparr>setOverrideReticleColor = Some Raise, setReticleColor = Some (Return ())\<rparr>)), settingsCore = None\<rparr>) (PStr ''#00FFDE'') =
     after [SetOverrideReticleColor (PStr ''#00FFDE''), crosshair_failed]
       (applyThroughSettings (\<lparr>sessionProvider = Some (Some (\<lparr>setOverrideReticleColor = Some Raise, setReticleColor = Some (Return ())\<rparr>)), settingsCore = None\<rparr>) (PStr ''#00FFDE'')) \<and>
   applyGunMarkerColor (\<lparr>sessionProvider = Some (Some (\<lparr>setOverrideReticleColor = None, setReticleColor = Some Raise\<rparr>)), settingsCore = None\<rparr>) (PStr ''#00FFDE'') =
     after [SetReticleColor (PStr ''#00FFDE''), crosshair_failed]
       (applyThroughSettings (\<lparr>sessionProvider = Some (Some (\<lparr>setOverrideReticleColor = None, setReticleColor = Some Raise\<rparr>)), settingsCore = None\<rparr>) (PStr ''#00FFDE'')) \<and>
   applyThroughSettings (\<lparr>sessionProvider = None, settingsCore = Some (\<lparr>options = Raise\<rparr>)\<rparr>) (PStr ''#00FFDE'') = ([settings_failed], False) \<and>
   applyThroughSettings (\<lparr>sessionProvider = None, settingsCore = Some (\<lparr>options = Return (Some (\<lparr>getSetting = Raise\<rparr>))\<rparr>)\<rparr>) (PStr ''#00FFDE'') = ([GetSetting, settings_failed], False) \<and>
   applyThroughSettings (\<lparr>sessionProvider = None, settingsCore = Some (\<lparr>options = Return (Some (\<lparr>getSetting = Return (Some (\<lparr>getSystemValue = Raise, setSystemValue = Return (), applySetting = Return ()\<rparr>))\<rparr>))\<rparr>)\<rparr>) (PStr ''#00FFDE'') =
     ([GetSetting, GetSystemValue, settings_failed], False) \<and>
   applyThroughSettings (\<lparr>sessionProvider = None, settingsCore = Some (\<lparr>options = Return (Some (\<lparr>getSetting = Return (Some (\<lparr>getSystemValue = Return (PDict [(''arcade'', PStr ''#FFCC00'')]), setSystemValue = Raise, applySetting = Return ()\<rparr>))\<rparr>))\<rparr>)\<rparr>) (PStr ''#00FFDE'') =
     ([GetSetting, GetSystemValue, SetSystemValue (PDict [(''arcade'', PStr ''#00FFDE'')]), settings_failed], False) \<and>
   applyThroughSettings (\<lparr>sessionProvider = None, settingsCore = Some (\<lparr>options = Return (Some (\<lparr>getSetting = Return (Some (\<lparr>getSystemValue = Return (PDict [(''arcade'', PStr ''#FFCC00'')]), setSystemValue = Return (), applySetting = Raise\<rparr>))\<rparr>))\<rparr>)\<rparr>) (PStr ''#00FFDE'') =
     ([GetSetting, GetSystemValue, SetSystemValue (PDict [(''arcade'', PStr ''#00FFDE'')]), ApplySetting, settings_failed],
      False) \<and>
   (\<forall>v. SetReticleColor v \<notin> set (fst (applyThroughSettings (\<lparr>sessionProvider = None, settingsCore = Some (\<lparr>options = Return (Some (\<lparr>getSetting = Return (Some (\<lparr>getSystemValue = Return (PDict [(''arcade'', PStr ''#FFCC00'')]), setSystemValue = Return (), applySetting = Raise\<rparr>))\<rparr>))\<rparr>)\<rparr>) (PStr ''#00FFDE''))))"
  using
    exception_falls_through_to_settings
      [of "\<lparr>sessionProvider = Some (Some (\<lparr>setOverrideReticleColor = Some Raise, setReticleColor = Some (Return ())\<rparr>)), settingsCore = None\<rparr>"
          "\<lparr>setOverrideReticleColor = Some Raise, setReticleColor = Some (Return ())\<rparr>" "PStr ''#00FFDE''"
          "\<lparr>options = Raise\<rparr>"
          "\<lparr>getSetting = Raise\<rparr>"
          "\<lparr>getSystemValue = Raise, setSystemValue = Raise, applySetting = Raise\<rparr>" "PNone"]
    exception_falls_through_to_settings
      [of "\<lparr>sessionProvider = Some (Some (\<lparr>setOverrideReticleColor = None, setReticleColor = Some Raise\<rparr>)), settingsCore = None\<rparr>"
          "\<lparr>setOverrideReticleColor = None, setReticleColor = Some Raise\<rparr>" "PStr ''#00FFDE''"
          "\<lparr>options = Raise\<rparr>"
          "\<lparr>getSetting = Raise\<rparr>"
          "\<lparr>getSystemValue = Raise, setSystemValue = Raise, applySetting = Raise\<rparr>" "PNone"]
    exception_falls_through_to_settings
      [of "\<lparr>sessionProvider = None, settingsCore = Some (\<lparr>options = Raise\<rparr>)\<rparr>"
          "\<lparr>setOverrideReticleColor = Some Raise, setReticleColor = Some (Return ())\<rparr>" "PStr ''#00FFDE''"
          "\<lparr>options = Raise\<rparr>"
          "\<lparr>getSetting = Raise\<rparr>"
          "\<lparr>getSystemValue = Raise, setSystemValue = Raise, applySetting = Raise\<rparr>" "PNone"]
    exception_falls_through_to_settings
      [of "\<lparr>sessionProvider = None, settingsCore = Some (\<lparr>options = Return (Some (\<lparr>getSetting = Raise\<rparr>))\<rparr>)\<rparr>"
          "\<lparr>setOverrideReticleColor = Some Raise, setReticleColor = Some (Return ())\<rparr>" "PStr ''#00FFDE''"
          "\<lparr>options = Return (Some (\<lparr>getSetting = Raise\<rparr>))\<rparr>"
          "\<lparr>getSetting = Raise\<rparr>"
          "\<lparr>getSystemValue = Raise, setSystemValue = Raise, applySetting = Raise\<rparr>" "PNone"]
    exception_falls_through_to_settings
      [of "\<lparr>sessionProvider = None, settingsCore = Some (\<lparr>options = Return (Some (\<lparr>getSetting = Return (Some (\<lparr>getSystemValue = Raise, setSystemValue = Return (), applySetting = Return ()\<rparr>))\<rparr>))\<rparr>)\<rparr>"
          "\<lparr>setOverrideReticleColor = Some Raise, setReticleColor = Some (Return ())\<rparr>" "PStr ''#00FFDE''"
          "\<lparr>options = Return (Some (\<lparr>getSetting = Return (Some (\<lparr>getSystemValue = Raise, setSystemValue = Return (), applySetting = Return ()\<rparr>))\<rparr>))\<rparr>"
          "\<lparr>getSetting = Return (Some (\<lparr>getSystemValue = Raise, setSystemValue = Return (), applySetting = Return ()\<rparr>))\<rparr>"
          "\<lparr>getSystemValue = Raise, setSystemValue = Return (), applySetting = Return ()\<rparr>" "PNone"]
    exception_falls_through_to_settings
      [of "\<lparr>sessionProvider = None, settingsCore = Some (\<lparr>options = Return (Some (\<lparr>getSetting = Return (Some (\<lparr>getSystemValue = Return (PDict [(''arcade'', PStr ''#FFCC00'')]), setSystemValue = Raise, applySetting = Return ()\<rparr>))\<rparr>))\<rparr>)\<rparr>"
          "\<lparr>setOverrideReticleColor = Some Raise, setReticleColor = Some (Return ())\<rparr>" "PStr ''#00FFDE''"
          "\<lparr>options = Return (Some (\<lparr>getSetting = Return (Some (\<lparr>getSystemValue = Return (PDict [(''arcade'', PStr ''#FFCC00'')]), setSystemValue = Raise, applySetting = Return ()\<rparr>))\<rparr>))\<rparr>"
          "\<lparr>getSetting = Return (Some (\<lparr>getSystemValue = Return (PDict [(''arcade'', PStr ''#FFCC00'')]), setSystemValue = Raise, applySetting = Return ()\<rparr>))\<rparr>"
          "\<lparr>getSystemValue = Return (PDict [(''arcade'', PStr ''#FFCC00'')]), setSystemValue = Raise, applySetting = Return ()\<rparr>" "PDict [(''arcade'', PStr ''#FFCC00'')]"]
    exception_falls_through_to_settings
      [of "\<lparr>sessionProvider = None, settingsCore = Some (\<lparr>options = Return (Some (\<lparr>getSetting = Return (Some (\<lparr>getSystemValue = Return (PDict [(''arcade'', PStr ''#FFCC00'')]), setSystemValue = Return (), applySetting = Raise\<rparr>))\<rparr>))\<rparr>)\<rparr>"
          "\<lparr>setOverrideReticleColor = Some Raise, setReticleColor = Some (Return ())\<rparr>" "PStr ''#00FFDE''"
          "\<lparr>options = Return (Some (\<lparr>getSetting = Return (Some (\<lparr>getSystemValue = Return (PDict [(''arcade'', PStr ''#FFCC00'')]), setSystemValue = Return (), applySetting = Raise\<rparr>))\<rparr>))\<rparr>"
          "\<lparr>getSetting = Return (Some (\<lparr>getSystemValue = Return (PDict [(''arcade'', PStr ''#FFCC00'')]), setSystemValue = Return (), applySetting = Raise\<rparr>))\<rparr>"
          "\<lparr>getSystemValue = Return (PDict [(''arcade'', PStr ''#FFCC00'')]), setSystemValue = Return (), applySetting = Raise\<rparr>" "PDict [(''arcade'', PStr ''#FFCC00'')]"]
  by (simp add: overwrite_all_def settings_failed_def)

text \<open>
  The claim as stated, that an exception of \<^verbatim>\<open>setOverrideReticleColor\<close> still leads to
  \<^verbatim>\<open>setReticleColor\<close> being tried, fails on a crosshair controller that has both methods, the
  first of which raises: the legacy method is not called, and with no settings core the
  attempt fails.
\<close>

theorem override_raises_legacy_not_tried:
  "applyGunMarkerColor (\<lparr>sessionProvider = Some (Some (\<lparr>setOverrideReticleColor = Some Raise, setReticleColor = Some (Return ())\<rparr>)), settingsCore = None\<rparr>) (PStr ''#00FFDE'') =
     ([SetOverrideReticleColor (PStr ''#00FFDE''), crosshair_failed], False) \<and>
   SetReticleColor (PStr ''#00FFDE'') \<notin> set (fst (applyGunMarkerColor (\<lparr>sessionProvider = Some (Some (\<lparr>setOverrideReticleColor = Some Raise, setReticleColor = Some (Return ())\<rparr>)), settingsCore = None\<rparr>) (PStr ''#00FFDE'')))"
  by (simp add: applyGunMarkerColor_def applyThroughSettings_def after_def crosshair_failed_def)

section \<open>Properties of the right-click hook\<close>






lemma assign_simps [simp]:
  "moduleAttr (assign c f t) = moduleAttr t"
  "ancestors (assign c f t) = ancestors t"
  "ownMethod (assign c f t) = (ownMethod t)(c := Some f)"
  by (simp_all add: assign_def)













































lemma shouldToggle_no_original:
  "CallOriginal m i \<notin> set (fst (shouldToggle K event))"
  by (simp add: shouldToggle_def event_failed_def split: option.splits outcome.splits)

lemma py_eq_int_iff:
  "py_eq_int v K = (v = PInt K \<or> (v = PBool True \<and> K = 1) \<or> (v = PBool False \<and> K = 0))"
  by (cases v) auto

lemma shouldToggle_Some:
  "shouldToggle K (Some ev) =
     (case isButtonDown ev of
        None \<Rightarrow> ([], False)
      | Some Raise \<Rightarrow> ([event_failed], False)
      | Some (Return down) \<Rightarrow>
          (if truthy down then
             (case key ev of
                Failing \<Rightarrow> ([event_failed], False)
              | Missing \<Rightarrow>
                  (case button ev of
                     Failing \<Rightarrow> ([event_failed], False)
                   | Missing \<Rightarrow> ([], False)
                   | Attr b \<Rightarrow> ([], py_eq_int b K))
              | Attr k \<Rightarrow>
                  (case button ev of
                     Failing \<Rightarrow> ([event_failed], False)
                   | Missing \<Rightarrow> ([], py_eq_int k K)
                   | Attr b \<Rightarrow> ([], py_eq_int b K)))
           else ([], False)))"
  by (cases "key ev"; cases "button ev")
     (simp_all add: shouldToggle_def split: option.splits outcome.splits)

lemma shouldToggle_press_iff:
  "snd (shouldToggle K event) \<longleftrightarrow>
     (\<exists>ev down. event = Some ev \<and> isButtonDown ev = Some (Return down) \<and> truthy down \<and>
        key ev \<noteq> Failing \<and>
        (case button ev of
           Attr b \<Rightarrow> py_eq_int b K
         | Missing \<Rightarrow> (case key ev of Attr k \<Rightarrow> py_eq_int k K | _ \<Rightarrow> False)
         | Failing \<Rightarrow> False))"
proof (cases event)
  case None
  then show ?thesis by (simp add: shouldToggle_def)
next
  case (Some ev)
  show ?thesis
    unfolding Some shouldToggle_Some
    by (cases "key ev"; cases "button ev")
       (auto split: option.splits outcome.splits)
qed

lemma shouldToggle_log:
  "fst (shouldToggle K event) =
     (if (\<exists>ev. event = Some ev \<and>
            (isButtonDown ev = Some Raise \<or>
             (\<exists>down. isButtonDown ev = Some (Return down) \<and> truthy down \<and>
                (key ev = Failing \<or> button ev = Failing))))
      then [event_failed] else [])"
proof (cases event)
  case None
  then show ?thesis by (simp add: shouldToggle_def)
next
  case (Some ev)
  show ?thesis
    unfolding Some shouldToggle_Some
    by (cases "key ev"; cases "button ev")
       (auto split: option.splits outcome.splits)
qed

text \<open>
  Claim C6.  On an event that \<^verbatim>\<open>__shouldToggle\<close> classifies as a press of the target button,
  while the weak reference still yields the controller, the wrapper calls \<^verbatim>\<open>toggle()\<close> on it
  and returns \<^verbatim>\<open>True\<close>; no original method is called.  On every other event, and on every
  event once the controller is gone, the wrapper calls the method it wraps with the same
  instance and event and returns what that call returns (or raises what it raises); the
  client's own method is what is reached at the end.  The events classified as a press are
  exactly these: the event is not \<^verbatim>\<open>None\<close>, it has \<^verbatim>\<open>isButtonDown\<close>, the call returns a true
  value, reading \<^verbatim>\<open>key\<close> and \<^verbatim>\<open>button\<close> raises nothing but \<^verbatim>\<open>AttributeError\<close>, and
  \<^verbatim>\<open>button\<close>, or \<^verbatim>\<open>key\<close> when the event has no \<^verbatim>\<open>button\<close>, equals \<^verbatim>\<open>KEY_RIGHTMOUSE\<close> as Python
  compares it.  An exception during the inspection is logged, once, and the event is not a
  press.
\<close>

theorem wrapper_toggles_or_delegates:
  "(snd (shouldToggle K event) \<and> ref = Some controller \<longrightarrow>
      callHandler K env orig (Wrapper method) instance event ref =
        (fst (shouldToggle K event) @ fst (toggle env controller),
         Some (snd (toggle env controller)), Return (PBool True)) \<and>
      (\<forall>m i. CallOriginal m i \<notin>
         set (fst (callHandler K env orig (Wrapper method) instance event ref)))) \<and>
   (\<not> snd (shouldToggle K event) \<or> ref = None \<longrightarrow>
      callHandler K env orig (Wrapper method) instance event ref =
        (fst (shouldToggle K event) @ fst (callHandler K env orig method instance event ref),
         snd (callHandler K env orig method instance event ref))) \<and>
   callHandler K env orig (Original m) instance event ref = ([CallOriginal m instance], ref, orig) \<and>
   (snd (shouldToggle K event) \<longleftrightarrow>
      (\<exists>ev down. event = Some ev \<and> isButtonDown ev = Some (Return down) \<and> truthy down \<and>
         key ev \<noteq> Failing \<and>
         (case button ev of
            Attr b \<Rightarrow> py_eq_int b K
          | Missing \<Rightarrow> (case key ev of Attr k \<Rightarrow> py_eq_int k K | _ \<Rightarrow> False)
          | Failing \<Rightarrow> False))) \<and>
   fst (shouldToggle K event) =
     (if (\<exists>ev. event = Some ev \<and>
            (isButtonDown ev = Some Raise \<or>
             (\<exists>down. isButtonDown ev = Some (Return down) \<and> truthy down \<and>
                (key ev = Failing \<or> button ev = Failing))))
      then [event_failed] else []) \<and>
   (\<forall>v. py_eq_int v K =
      (v = PInt K \<or> (v = PBool True \<and> K = 1) \<or> (v = PBool False \<and> K = 0)))"
proof (intro conjI impI)
  assume a: "snd (shouldToggle K event) \<and> ref = Some controller"
  then have eq: "callHandler K env orig (Wrapper method) instance event ref =
        (fst (shouldToggle K event) @ fst (toggle env controller),
         Some (snd (toggle env controller)), Return (PBool True))"
    by (simp add: split_def Let_def)
  show "callHandler K env orig (Wrapper method) instance event ref =
        (fst (shouldToggle K event) @ fst (toggle env controller),
         Some (snd (toggle env controller)), Return (PBool True))"
    by (rule eq)
  show "\<forall>m i. CallOriginal m i \<notin>
         set (fst (callHandler K env orig (Wrapper method) instance event ref))"
    unfolding eq by (simp add: shouldToggle_no_original toggle_no_original)
next
  assume "\<not> snd (shouldToggle K event) \<or> ref = None"
  then show "callHandler K env orig (Wrapper method) instance event ref =
        (fst (shouldToggle K event) @ fst (callHandler K env orig method instance event ref),
         snd (callHandler K env orig method instance event ref))"
    by (auto simp: split_def Let_def)
next
  show "callHandler K env orig (Original m) instance event ref = ([CallOriginal m instance], ref, orig)"
    by simp
next
  show "snd (shouldToggle K event) \<longleftrightarrow>
      (\<exists>ev down. event = Some ev \<and> isButtonDown ev = Some (Return down) \<and> truthy down \<and>
         key ev \<noteq> Failing \<and>
         (case button ev of
            Attr b \<Rightarrow> py_eq_int b K
          | Missing \<Rightarrow> (case key ev of Attr k \<Rightarrow> py_eq_int k K | _ \<Rightarrow> False)
          | Failing \<Rightarrow> False))"
    by (rule shouldToggle_press_iff)
next
  show "fst (shouldToggle K event) =
     (if (\<exists>ev. event = Some ev \<and>
            (isButtonDown ev = Some Raise \<or>
             (\<exists>down. isButtonDown ev = Some (Return down) \<and> truthy down \<and>
                (key ev = Failing \<or> button ev = Failing))))
      then [event_failed] else [])"
    by (rule shouldToggle_log)
next
  show "\<forall>v. py_eq_int v K =
      (v = PInt K \<or> (v = PBool True \<and> K = 1) \<or> (v = PBool False \<and> K = 0))"
    by (intro allI) (rule py_eq_int_iff)
qed

theorem wrapper_toggles_or_delegates_witness:
  "snd (shouldToggle 257 (Some \<lparr>isButtonDown = Some (Return (PBool True)), button = Attr (PInt 257), key = Missing\<rparr>)) \<and>
   callHandler 257 (\<lparr>sessionProvider = Some (Some \<lparr>setOverrideReticleColor = Some (Return ()), setReticleColor = None\<rparr>), settingsCore = None\<rparr>)
      (Return PNone) (Wrapper (Original 7)) 1 (Some \<lparr>isButtonDown = Some (Return (PBool True)), button = Attr (PInt 257), key = Missing\<rparr>)
      (Some (newController defaults)) =
     ([toggled True, SetOverrideReticleColor (PStr ''#00FFDE'')],
      Some (snd (toggle (\<lparr>sessionProvider = Some (Some \<lparr>setOverrideReticleColor = Some (Return ()), setReticleColor = None\<rparr>), settingsCore = None\<rparr>) (newController defaults))),
      Return (PBool True)) \<and>
   callHandler 257 (\<lparr>sessionProvider = Some (Some \<lparr>setOverrideReticleColor = Some (Return ()), setReticleColor = None\<rparr>), settingsCore = None\<rparr>)
      (Return PNone) (Wrapper (Original 7)) 1 (Some \<lparr>isButtonDown = Some (Return (PBool True)), button = Attr (PInt 257), key = Missing\<rparr>)
      (None) =
     ([CallOriginal 7 1], None, Return PNone) \<and>
   \<not> snd (shouldToggle 257 (Some \<lparr>isButtonDown = Some (Return (PBool True)), button = Attr (PInt 256), key = Missing\<rparr>)) \<and>
   callHandler 257 (\<lparr>sessionProvider = Some (Some \<lparr>setOverrideReticleColor = Some (Return ()), setReticleColor = None\<rparr>), settingsCore = None\<rparr>)
      (Return PNone) (Wrapper (Original 7)) 1 (Some \<lparr>isButtonDown = Some (Return (PBool True)), button = Attr (PInt 256), key = Missing\<rparr>)
      (Some (newController defaults)) =
     ([CallOriginal 7 1], Some (newController defaults), Return PNone) \<and>
   callHandler 257 (\<lparr>sessionProvider = Some (Some \<lparr>setOverrideReticleColor = Some (Return ()), setReticleColor = None\<rparr>), settingsCore = None\<rparr>)
      (Return PNone) (Wrapper (Original 7)) 1 (None)
      (Some (newController defaults)) =
     ([CallOriginal 7 1], Some (newController defaults), Return PNone) \<and>
   callHandler 257 (\<lparr>sessionProvider = Some (Some \<lparr>setOverrideReticleColor = Some (Return ()), setReticleColor = None\<rparr>), settingsCore = None\<rparr>)
      (Return PNone) (Wrapper (Original 7)) 1 (Some \<lparr>isButtonDown = None, button = Attr (PInt 257), key = Missing\<rparr>)
      (Some (newController defaults)) =
     ([CallOriginal 7 1], Some (newController defaults), Return PNone) \<and>
   callHandler 257 (\<lparr>sessionProvider = Some (Some \<lparr>setOverrideReticleColor = Some (Return ()), setReticleColor = None\<rparr>), settingsCore = None\<rparr>)
      (Return PNone) (Wrapper (Original 7)) 1 (Some \<lparr>isButtonDown = Some (Return (PBool False)), button = Attr (PInt 257), key = Missing\<rparr>)
      (Some (newController defaults)) =
     ([CallOriginal 7 1], Some (newController defaults), Return PNone) \<and>
   callHandler 257 (\<lparr>sessionProvider = Some (Some \<lparr>setOverrideReticleColor = Some (Return ()), setReticleColor = None\<rparr>), settingsCore = None\<rparr>)
      (Return PNone) (Wrapper (Original 7)) 1 (Some \<lparr>isButtonDown = Some Raise, button = Attr (PInt 257), key = Missing\<rparr>)
      (Some (newController defaults)) =
     ([event_failed, CallOriginal 7 1], Some (newController defaults), Return PNone) \<and>
   callHandler 257 (\<lparr>sessionProvider = Some (Some \<lparr>setOverrideReticleColor = Some (Return ()), setReticleColor = None\<rparr>), settingsCore = None\<rparr>)
      (Return PNone) (Wrapper (Original 7)) 1 (Some \<lparr>isButtonDown = Some (Return (PBool True)), button = Attr (PInt 257), key = Failing\<rparr>)
      (Some (newController defaults)) =
     ([event_failed, CallOriginal 7 1], Some (newController defaults), Return PNone)"
  using
    wrapper_toggles_or_delegates [of 257 "Some \<lparr>isButtonDown = Some (Return (PBool True)), button = Attr (PInt 257), key = Missing\<rparr>" "Some (newController defaults)" "newController defaults"
      "\<lparr>sessionProvider = Some (Some \<lparr>setOverrideReticleColor = Some (Return ()), setReticleColor = None\<rparr>), settingsCore = None\<rparr>" "Return PNone" "Original 7" 1 7]
    wrapper_toggles_or_delegates [of 257 "Some \<lparr>isButtonDown = Some (Return (PBool True)), button = Attr (PInt 257), key = Missing\<rparr>" "None" "newController defaults"
      "\<lparr>sessionProvider = Some (Some \<lparr>setOverrideReticleColor = Some (Return ()), setReticleColor = None\<rparr>), settingsCore = None\<rparr>" "Return PNone" "Original 7" 1 7]
    wrapper_toggles_or_delegates [of 257 "Some \<lparr>isButtonDown = Some (Return (PBool True)), button = Attr (PInt 256), key = Missing\<rparr>" "Some (newController defaults)" "newController defaults"
      "\<lparr>sessionProvider = Some (Some \<lparr>setOverrideReticleColor = Some (Return ()), setReticleColor = None\<rparr>), settingsCore = None\<rparr>" "Return PNone" "Original 7" 1 7]
    wrapper_toggles_or_delegates [of 257 "None" "Some (newController defaults)" "newController defaults"
      "\<lparr>sessionProvider = Some (Some \<lparr>setOverrideReticleColor = Some (Return ()), setReticleColor = None\<rparr>), settingsCore = None\<rparr>" "Return PNone" "Original 7" 1 7]
    wrapper_toggles_or_delegates [of 257 "Some \<lparr>isButtonDown = None, button = Attr (PInt 257), key = Missing\<rparr>" "Some (newController defaults)" "newController defaults"
      "\<lparr>sessionProvider = Some (Some \<lparr>setOverrideReticleColor = Some (Return ()), setReticleColor = None\<rparr>), settingsCore = None\<rparr>" "Return PNone" "Original 7" 1 7]
    wrapper_toggles_or_delegates [of 257 "Some \<lparr>isButtonDown = Some (Return (PBool False)), button = Attr (PInt 257), key = Missing\<rparr>" "Some (newController defaults)" "newController defaults"
      "\<lparr>sessionProvider = Some (Some \<lparr>setOverrideReticleColor = Some (Return ()), setReticleColor = None\<rparr>), settingsCore = None\<rparr>" "Return PNone" "Original 7" 1 7]
    wrapper_toggles_or_delegates [of 257 "Some \<lparr>isButtonDown = Some Raise, button = Attr (PInt 257), key = Missing\<rparr>" "Some (newController defaults)" "newController defaults"
      "\<lparr>sessionProvider = Some (Some \<lparr>setOverrideReticleColor = Some (Return ()), setReticleColor = None\<rparr>), settingsCore = None\<rparr>" "Return PNone" "Original 7" 1 7]
    wrapper_toggles_or_delegates [of 257 "Some \<lparr>isButtonDown = Some (Return (PBool True)), button = Attr (PInt 257), key = Failing\<rparr>" "Some (newController defaults)" "newController defaults"
      "\<lparr>sessionProvider = Some (Some \<lparr>setOverrideReticleColor = Some (Return ()), setReticleColor = None\<rparr>), settingsCore = None\<rparr>" "Return PNone" "Original 7" 1 7]
  by (simp add: shouldToggle_def toggle_def applyCurrentColor_eq applyGunMarkerColor_def
      currentColor_def newController_def defaults_def)

end
